theory Spec2Isabelle
  imports Main
begin

section \<open>The session store (useChatStore.ts)\<close>

text \<open>
  JavaScript strings are modelled as \<open>string\<close>, one \<open>char\<close> per code unit, so the model
  covers the strings whose code units are below 256. \<open>null\<close> and \<open>undefined\<close> are
  \<open>None\<close>.
\<close>

subsection \<open>Objects used as dictionaries\<close>

text \<open>
  A \<open>Record<string, T>\<close> is a plain object. Its own properties are a map from keys
  to values, and object spread, a computed key in an object literal and \<open>delete\<close> work
  on own properties only. Reading \<open>obj[key]\<close> goes on to the prototype when there
  is no own property: for a key that names a member of \<open>Object.prototype\<close> the read
  yields that member, a function (or, for \<open>__proto__\<close>, the prototype object), and
  not \<open>undefined\<close>. \<open>Object.prototype\<close> is taken to be the unmodified one of a
  browser.
\<close>

definition object_prototype_keys :: "string list" where
  "object_prototype_keys =
     [''constructor'', ''hasOwnProperty'', ''isPrototypeOf'', ''propertyIsEnumerable'',
      ''toLocaleString'', ''toString'', ''valueOf'', ''__proto__'',
      ''__defineGetter__'', ''__defineSetter__'', ''__lookupGetter__'',
      ''__lookupSetter__'']"

datatype 'a property = Own 'a | Inherited string | Undefined

definition get_property :: "(string \<rightharpoonup> 'a) \<Rightarrow> string \<Rightarrow> 'a property" where
  "get_property obj k =
     (case obj k of
        Some v \<Rightarrow> Own v
      | None \<Rightarrow> if k \<in> set object_prototype_keys then Inherited k else Undefined)"

datatype js_error = FetchFailed | HttpError nat | SyntaxError | TypeError

subsection \<open>State and actions\<close>

datatype Role = User | Assistant

datatype MediaKind = Image | Video | Pdf | Audio

record MediaAttachment =
  kind :: MediaKind
  content :: string
  name :: "string option"

record ChatMessage =
  role :: Role
  text' :: string
  media :: "MediaAttachment list option"

record SessionItem =
  id' :: string
  title :: string
  updated_at :: "string option"

record ChatState =
  sessions :: "SessionItem list"
  activeSessionId :: "string option"
  messagesBySession :: "string \<rightharpoonup> ChatMessage list"
  language :: string

definition initial_store :: ChatState where
  "initial_store =
     \<lparr>sessions = [], activeSessionId = None, messagesBySession = Map.empty,
      language = ''auto''\<rparr>"

text \<open>
  Every action calls zustand's \<open>set\<close> once, which merges the returned partial state
  into the store; the fields an action does not return keep their value. An action is
  therefore one atomic transition of the store.
\<close>

definition setLanguage :: "string \<Rightarrow> ChatState \<Rightarrow> ChatState" where
  "setLanguage lang s = s\<lparr>language := lang\<rparr>"

definition setSessions :: "SessionItem list \<Rightarrow> ChatState \<Rightarrow> ChatState" where
  "setSessions ss s = s\<lparr>sessions := ss\<rparr>"

definition setActiveSession :: "string option \<Rightarrow> ChatState \<Rightarrow> ChatState" where
  "setActiveSession a s = s\<lparr>activeSessionId := a\<rparr>"

definition setMessages :: "string \<Rightarrow> ChatMessage list \<Rightarrow> ChatState \<Rightarrow> ChatState" where
  "setMessages sessionId messages s =
     s\<lparr>messagesBySession := (messagesBySession s)(sessionId \<mapsto> messages)\<rparr>"

text \<open>The message sequence the store holds for an id: its own entry, or none.\<close>

definition messagesOf :: "ChatState \<Rightarrow> string \<Rightarrow> ChatMessage list" where
  "messagesOf s sessionId =
     (case messagesBySession s sessionId of None \<Rightarrow> [] | Some ms \<Rightarrow> ms)"

text \<open>
  \<open>[...(state.messagesBySession[sessionId] ?? []), message]\<close>: an inherited member is
  neither null nor iterable, so spreading it throws a TypeError.
\<close>

definition spread_messages :: "ChatState \<Rightarrow> string \<Rightarrow> js_error + ChatMessage list" where
  "spread_messages s sessionId =
     (case get_property (messagesBySession s) sessionId of
        Own ms \<Rightarrow> Inr ms
      | Undefined \<Rightarrow> Inr []
      | Inherited k \<Rightarrow> Inl TypeError)"

text \<open>
  The call \<open>appendMessage(sessionId, message)\<close>: \<open>Inl\<close> is the exception that
  leaves the updater, and with it \<open>set\<close> and the call, before the store is written.
\<close>

definition appendMessage_call ::
  "string \<Rightarrow> ChatMessage \<Rightarrow> ChatState \<Rightarrow> js_error + ChatState" where
  "appendMessage_call sessionId message s =
     (case spread_messages s sessionId of
        Inl e \<Rightarrow> Inl e
      | Inr ms \<Rightarrow>
          Inr (s\<lparr>messagesBySession := (messagesBySession s)(sessionId \<mapsto> ms @ [message])\<rparr>))"

text \<open>The store after the call, whether it returned or threw.\<close>

definition appendMessage :: "string \<Rightarrow> ChatMessage \<Rightarrow> ChatState \<Rightarrow> ChatState" where
  "appendMessage sessionId message s =
     (case appendMessage_call sessionId message s of Inl e \<Rightarrow> s | Inr s' \<Rightarrow> s')"

text \<open>The case in which the call throws: no own entry, and the id names an inherited member.\<close>

definition inherited_member :: "ChatState \<Rightarrow> string \<Rightarrow> bool" where
  "inherited_member s sessionId =
     (messagesBySession s sessionId = None \<and> sessionId \<in> set object_prototype_keys)"

definition clearSessionMessages :: "string \<Rightarrow> ChatState \<Rightarrow> ChatState" where
  "clearSessionMessages sessionId s =
     s\<lparr>messagesBySession := (messagesBySession s)(sessionId \<mapsto> [])\<rparr>"

definition removeSession :: "string \<Rightarrow> ChatState \<Rightarrow> ChatState" where
  "removeSession sessionId s =
     (let nextSessions = filter (\<lambda>x. id' x \<noteq> sessionId) (sessions s);
          nextMessages = (messagesBySession s)(sessionId := None);
          nextActive =
            (if activeSessionId s = Some sessionId then None else activeSessionId s)
      in s\<lparr>sessions := nextSessions, messagesBySession := nextMessages,
            activeSessionId := nextActive\<rparr>)"

definition updateSessionTitle :: "string \<Rightarrow> string \<Rightarrow> ChatState \<Rightarrow> ChatState" where
  "updateSessionTitle sessionId t s =
     s\<lparr>sessions := map (\<lambda>x. if id' x = sessionId then x\<lparr>title := t\<rparr> else x) (sessions s)\<rparr>"

subsection \<open>Sequences of store operations\<close>

text \<open>The eight actions of the store as a datatype, so that a history is a list.\<close>

datatype store_op =
    SetLanguage string
  | SetSessions "SessionItem list"
  | SetActiveSession "string option"
  | SetMessages string "ChatMessage list"
  | AppendMessage string ChatMessage
  | ClearSessionMessages string
  | RemoveSession string
  | UpdateSessionTitle string string

fun apply_op :: "store_op \<Rightarrow> ChatState \<Rightarrow> ChatState" where
  "apply_op (SetLanguage l) s = setLanguage l s"
| "apply_op (SetSessions ss) s = setSessions ss s"
| "apply_op (SetActiveSession a) s = setActiveSession a s"
| "apply_op (SetMessages k ms) s = setMessages k ms s"
| "apply_op (AppendMessage k m) s = appendMessage k m s"
| "apply_op (ClearSessionMessages k) s = clearSessionMessages k s"
| "apply_op (RemoveSession k) s = removeSession k s"
| "apply_op (UpdateSessionTitle k t) s = updateSessionTitle k t s"

fun run_ops :: "store_op list \<Rightarrow> ChatState \<Rightarrow> ChatState" where
  "run_ops [] s = s"
| "run_ops (op # ops) s = run_ops ops (apply_op op s)"

definition session_ids :: "SessionItem list \<Rightarrow> string set" where
  "session_ids ss = set (map id' ss)"

text \<open>\<open>activeSessionId\<close> is null or the id of a session in the list.\<close>

definition active_exists :: "ChatState \<Rightarrow> bool" where
  "active_exists s =
     (case activeSessionId s of None \<Rightarrow> True | Some a \<Rightarrow> a \<in> session_ids (sessions s))"

text \<open>Every key of \<open>messagesBySession\<close> is the id of a session in the list.\<close>

definition keys_have_sessions :: "ChatState \<Rightarrow> bool" where
  "keys_have_sessions s = (dom (messagesBySession s) \<subseteq> session_ids (sessions s))"

text \<open>
  The store validates no argument. What a caller has to respect for \<open>active_exists\<close>
  to survive an action: \<open>setActiveSession\<close> is given null or an id in the list, and
  \<open>setSessions\<close> a list that still holds the active session.
\<close>

fun caller_keeps_active :: "store_op \<Rightarrow> ChatState \<Rightarrow> bool" where
  "caller_keeps_active (SetActiveSession (Some a)) s = (a \<in> session_ids (sessions s))"
| "caller_keeps_active (SetSessions ss) s =
     (case activeSessionId s of None \<Rightarrow> True | Some a \<Rightarrow> a \<in> session_ids ss)"
| "caller_keeps_active _ s = True"

text \<open>
  The same for \<open>keys_have_sessions\<close>: the three message-log actions are given the id
  of a session in the list, and \<open>setSessions\<close> a list that covers every key.
\<close>

fun caller_keeps_keys :: "store_op \<Rightarrow> ChatState \<Rightarrow> bool" where
  "caller_keeps_keys (SetMessages k ms) s = (k \<in> session_ids (sessions s))"
| "caller_keeps_keys (AppendMessage k m) s = (k \<in> session_ids (sessions s))"
| "caller_keeps_keys (ClearSessionMessages k) s = (k \<in> session_ids (sessions s))"
| "caller_keeps_keys (SetSessions ss) s = (dom (messagesBySession s) \<subseteq> session_ids ss)"
| "caller_keeps_keys _ s = True"

text \<open>A history in which the guard holds at every step, in the state the step starts from.\<close>

fun respected :: "(store_op \<Rightarrow> ChatState \<Rightarrow> bool) \<Rightarrow> store_op list \<Rightarrow> ChatState \<Rightarrow> bool" where
  "respected g [] s = True"
| "respected g (op # ops) s = (g op s \<and> respected g ops (apply_op op s))"

subsection \<open>Example stores\<close>

definition msg_hello :: ChatMessage where
  "msg_hello = \<lparr>role = User, text' = ''hello'', media = None\<rparr>"

definition msg_reply :: ChatMessage where
  "msg_reply = \<lparr>role = Assistant, text' = ''hi'', media = None\<rparr>"

definition store_ab :: ChatState where
  "store_ab =
     \<lparr>sessions = [\<lparr>id' = ''a'', title = ''New chat'', updated_at = None\<rparr>,
                  \<lparr>id' = ''b'', title = ''Fever'', updated_at = None\<rparr>],
      activeSessionId = Some ''a'',
      messagesBySession = [''a'' \<mapsto> [msg_hello], ''b'' \<mapsto> [msg_reply]],
      language = ''hi-IN''\<rparr>"

section \<open>Language normalisation (ChatInterface.tsx)\<close>

text \<open>
  \<open>String.prototype.trim\<close> removes white space and line terminators from both ends.
  Below 256 these are the code units 9 to 13, 32 and 160.
\<close>

definition is_js_space :: "char \<Rightarrow> bool" where
  "is_js_space c = (of_char c \<in> {9, 10, 11, 12, 13, 32, 160 :: nat})"

definition trim :: "string \<Rightarrow> string" where
  "trim s = rev (dropWhile is_js_space (rev (dropWhile is_js_space s)))"

text \<open>
  \<open>String.prototype.toLowerCase\<close>: below 256 the code units with a lower-case
  counterpart are A to Z and 192 to 222 without 215, each 32 below its counterpart.
\<close>

definition lower_char :: "char \<Rightarrow> char" where
  "lower_char c =
     (let n = of_char c :: nat
      in if (65 \<le> n \<and> n \<le> 90) \<or> (192 \<le> n \<and> n \<le> 222 \<and> n \<noteq> 215)
         then char_of (n + 32) else c)"

definition toLowerCase :: "string \<Rightarrow> string" where
  "toLowerCase s = map lower_char s"

text \<open>The object literal \<open>map\<close> of \<open>normalizeUiLanguage\<close>, in source order.\<close>

definition lang_table :: "(string \<times> string) list" where
  "lang_table =
     [(''en'', ''en-IN''), (''en-in'', ''en-IN''),
      (''hi'', ''hi-IN''), (''hi-in'', ''hi-IN''),
      (''ta'', ''ta-IN''), (''ta-in'', ''ta-IN''),
      (''bn'', ''bn-IN''), (''bn-in'', ''bn-IN''),
      (''te'', ''te-IN''), (''te-in'', ''te-IN''),
      (''mr'', ''mr-IN''), (''mr-in'', ''mr-IN'')]"

text \<open>
  What \<open>normalizeUiLanguage\<close> returns: a string, or, when \<open>map[lowered]\<close> finds a
  member inherited from \<open>Object.prototype\<close>, that member.
\<close>

datatype js_value = JsString string | PrototypeMember string

definition normalizeUiLanguage :: "string \<Rightarrow> js_value" where
  "normalizeUiLanguage code =
     (let lowered = toLowerCase (trim code)
      in if lowered = [] then JsString ''en-IN''
         else if lowered = ''auto'' then JsString ''auto''
         else (case get_property (map_of lang_table) lowered of
                 Own v \<Rightarrow> JsString v
               | Inherited k \<Rightarrow> PrototypeMember k
               | Undefined \<Rightarrow> JsString code))"

section \<open>The message exchange (ChatInterface.tsx)\<close>

subsection \<open>Remote calls\<close>

text \<open>
  What \<open>await fetch(...)\<close> followed by \<open>res.ok\<close> and \<open>await res.json()\<close> can
  meet: the fetch rejects, or it resolves with a status and a body, and the body is not
  JSON, is JSON \<open>null\<close>, or is a JSON value whose fields can be read.
\<close>

datatype 'a body = NotJson | JsonNull | Json 'a

datatype 'a http_result = NetworkError | Response nat "'a body"

definition ok :: "nat \<Rightarrow> bool" where
  "ok status = (200 \<le> status \<and> status \<le> 299)"

text \<open>
  The common opening of a \<open>try\<close> block: \<open>if (!res.ok) throw\<close>, then the body is
  parsed, then its fields are read. Reading a field of \<open>null\<close> throws a TypeError; in
  both callers that read comes before any change of state.
\<close>

definition fetch_json :: "'a http_result \<Rightarrow> js_error + 'a" where
  "fetch_json r =
     (case r of
        NetworkError \<Rightarrow> Inl FetchFailed
      | Response status b \<Rightarrow>
          if \<not> ok status then Inl (HttpError status)
          else (case b of NotJson \<Rightarrow> Inl SyntaxError
                | JsonNull \<Rightarrow> Inl TypeError
                | Json d \<Rightarrow> Inr d))"

record SessionApi =
  api_id :: string
  api_title :: "string option"
  api_updated_at :: "string option"

record ChatApiResponse =
  resp_session_id :: string
  resp_title :: "string option"
  response :: "string option"

record ChatRequest =
  user_id :: string
  session_id :: string
  message :: string
  language_lock :: "string option"
  req_media :: "(string \<times> string) list"

datatype timer_callback = LoadSessions string

datatype effect =
    PostSessionNew string
  | PostChat ChatRequest
  | SetTimeout nat timer_callback

fun is_timer :: "effect \<Rightarrow> bool" where
  "is_timer (SetTimeout ms cb) = True"
| "is_timer _ = False"

fun is_chat_request :: "effect \<Rightarrow> bool" where
  "is_chat_request (PostChat r) = True"
| "is_chat_request _ = False"

subsection \<open>The component\<close>

text \<open>
  The state a call of the component's functions sees: the store, the signed-in user's
  uid, the local input, the pending attachments and the loading flag. \<open>effects\<close> is the
  log of what the component asked of the outside: requests sent and timers set, in
  order. The values a function reads from its closure (\<open>user\<close>, \<open>input\<close>, \<open>media\<close>,
  \<open>sessions\<close>, \<open>activeSessionId\<close>, \<open>language\<close>) are those of the state at the call:
  the render is taken to be current. A call runs to its end with no other event
  handled while it awaits.
\<close>

record Component =
  store :: ChatState
  user :: "string option"
  input :: string
  media' :: "MediaAttachment list"
  loading :: bool
  effects :: "effect list"

text \<open>What one call of \<open>sendMessage\<close> meets outside the component.\<close>

record Env =
  session_new_reply :: "SessionApi http_result"
  randomUUID :: string
  chat_reply :: "ChatApiResponse http_result"

definition new_chat :: "string \<Rightarrow> SessionItem" where
  "new_chat k = \<lparr>id' = k, title = ''New chat'', updated_at = None\<rparr>"

text \<open>
  \<open>createSession\<close>. In the \<open>try\<close> block nothing changes before the reply has been
  read, so the \<open>catch\<close> block starts from the state in which the request was sent.
\<close>

definition createSession :: "Env \<Rightarrow> Component \<Rightarrow> Component" where
  "createSession env c =
     (case user c of
        None \<Rightarrow> c
      | Some uid \<Rightarrow>
          let sessions0 = sessions (store c);
              c1 = c\<lparr>effects := effects c @ [PostSessionNew uid]\<rparr>
          in (case fetch_json (session_new_reply env) of
                Inr data \<Rightarrow>
                  let next = \<lparr>id' = api_id data,
                              title = (case api_title data of None \<Rightarrow> ''New chat'' | Some t \<Rightarrow> t),
                              updated_at = api_updated_at data\<rparr>;
                      st1 = (if \<not> list_ex (\<lambda>x. id' x = id' next) sessions0
                             then setSessions (next # sessions0) (store c1)
                             else setSessions
                                    (map (\<lambda>x. if id' x = id' next
                                               then x\<lparr>id' := id' next, title := title next,
                                                      updated_at := updated_at next\<rparr>
                                               else x) sessions0)
                                    (store c1));
                      st2 = setActiveSession (Some (id' next)) st1;
                      st3 = setMessages (id' next) [] st2
                  in c1\<lparr>store := st3, input := [], media' := []\<rparr>
              | Inl e \<Rightarrow>
                  let local = randomUUID env;
                      st1 = setSessions (new_chat local # sessions0) (store c1);
                      st2 = setActiveSession (Some local) st1;
                      st3 = setMessages local [] st2
                  in c1\<lparr>store := st3, input := [], media' := []\<rparr>))"

text \<open>\<open>!sessionId\<close> holds for \<open>null\<close> and for the empty string.\<close>

definition truthy :: "string option \<Rightarrow> string option" where
  "truthy v = (case v of None \<Rightarrow> None | Some x \<Rightarrow> if x = [] then None else Some x)"

fun kind_on_wire :: "MediaKind \<Rightarrow> string" where
  "kind_on_wire Pdf = ''text''"
| "kind_on_wire Image = ''image''"
| "kind_on_wire Video = ''video''"
| "kind_on_wire Audio = ''audio''"

definition chat_request ::
  "string \<Rightarrow> string \<Rightarrow> string \<Rightarrow> string \<Rightarrow> MediaAttachment list \<Rightarrow> ChatRequest" where
  "chat_request uid sessionId userText lang sentMedia =
     \<lparr>user_id = uid, session_id = sessionId, message = userText,
      language_lock = (if lang = ''auto'' then None else Some lang),
      req_media = map (\<lambda>m. (kind_on_wire (kind m), content m)) sentMedia\<rparr>"

definition user_turn :: "string \<Rightarrow> MediaAttachment list \<Rightarrow> ChatMessage" where
  "user_turn userText sentMedia =
     \<lparr>role = User, text' = userText,
      media = (if sentMedia \<noteq> [] then Some sentMedia else None)\<rparr>"

definition assistant_turn :: "string \<Rightarrow> ChatMessage" where
  "assistant_turn t = \<lparr>role = Assistant, text' = t, media = None\<rparr>"

text \<open>
  The \<open>try\<close> block of \<open>sendMessage\<close>, from the state in which the request has been
  sent: \<open>Inl\<close> is the exception that reaches the \<open>catch\<close> block, thrown before the
  block has changed anything.
\<close>

definition chat_try :: "string \<Rightarrow> string \<Rightarrow> Env \<Rightarrow> Component \<Rightarrow> js_error + Component" where
  "chat_try uid sessionId env c =
     (case fetch_json (chat_reply env) of
        Inl e \<Rightarrow> Inl e
      | Inr data \<Rightarrow>
          (case appendMessage_call sessionId
                  (assistant_turn
                     (case response data of None \<Rightarrow> ''No response.'' | Some t \<Rightarrow> t))
                  (store c) of
             Inl e \<Rightarrow> Inl e
           | Inr st1 \<Rightarrow>
               let st2 = (case truthy (resp_title data) of
                            Some t \<Rightarrow> updateSessionTitle sessionId t st1
                          | None \<Rightarrow> st1)
               in Inr (c\<lparr>store := st2,
                         effects := effects c @ [SetTimeout 1200 (LoadSessions uid)]\<rparr>)))"

text \<open>
  The part of \<open>sendMessage\<close> after the session id is known. \<open>closure\<close> is the state
  at the call, from which \<open>input\<close>, \<open>media\<close> and \<open>language\<close> are read; \<open>c\<close> is the
  current state, which \<open>createSession\<close> may have changed in between. \<open>Inl\<close> is an
  exception that nothing catches, with the state it leaves behind: from the first
  \<open>appendMessage\<close>, which is outside the \<open>try\<close> block, or from the one in the
  \<open>catch\<close> block, after which \<open>finally\<close> still runs.
\<close>

definition send_turn ::
  "string \<Rightarrow> string \<Rightarrow> Env \<Rightarrow> Component \<Rightarrow> Component \<Rightarrow> js_error \<times> Component + Component" where
  "send_turn uid sessionId env closure c =
     (if trim (input closure) = [] \<and> media' closure = [] then Inr c
      else
        let userText = (if trim (input closure) \<noteq> [] then trim (input closure)
                        else ''[Media attached]'');
            sentMedia = media' closure
        in (case appendMessage_call sessionId (user_turn userText sentMedia) (store c) of
              Inl e \<Rightarrow> Inl (e, c)
            | Inr st \<Rightarrow>
                let c1 = c\<lparr>store := st, input := [], media' := [], loading := True\<rparr>;
                    c2 = c1\<lparr>effects := effects c1 @
                           [PostChat (chat_request uid sessionId userText
                              (language (store closure)) sentMedia)]\<rparr>
                in (case chat_try uid sessionId env c2 of
                      Inr c' \<Rightarrow> Inr (c'\<lparr>loading := False\<rparr>)
                    | Inl e \<Rightarrow>
                        (case appendMessage_call sessionId
                                (assistant_turn ''Network/server error. Try again.'')
                                (store c2) of
                           Inr st' \<Rightarrow> Inr (c2\<lparr>store := st', loading := False\<rparr>)
                         | Inl e' \<Rightarrow> Inl (e', c2\<lparr>loading := False\<rparr>)))))"

text \<open>
  \<open>sendMessage\<close>. The result is how the promise settles: \<open>Inr\<close> the state in which
  it resolves, \<open>Inl\<close> the exception it rejects with and the state at that point.
\<close>

definition sendMessage :: "Env \<Rightarrow> Component \<Rightarrow> js_error \<times> Component + Component" where
  "sendMessage env c =
     (case user c of
        None \<Rightarrow> Inr c
      | Some uid \<Rightarrow>
          (case truthy (activeSessionId (store c)) of
             Some sessionId \<Rightarrow> send_turn uid sessionId env c c
           | None \<Rightarrow>
               let c' = createSession env c
               in (case truthy (activeSessionId (store c')) of
                     None \<Rightarrow> Inr c'
                   | Some sessionId \<Rightarrow> send_turn uid sessionId env c c')))"

text \<open>
  The state in which a call of \<open>sendMessage\<close> looks for its session id: the state at
  the call when there is an active session, the state after \<open>createSession\<close>
  otherwise.
\<close>

definition state_for_turn :: "Env \<Rightarrow> Component \<Rightarrow> Component" where
  "state_for_turn env c =
     (case truthy (activeSessionId (store c)) of
        Some sessionId \<Rightarrow> c
      | None \<Rightarrow> createSession env c)"

text \<open>The session id a call of \<open>sendMessage\<close> works on, if it gets one.\<close>

definition session_for_send :: "Env \<Rightarrow> Component \<Rightarrow> string option" where
  "session_for_send env c = truthy (activeSessionId (store (state_for_turn env c)))"

subsection \<open>Example components and environments\<close>

definition comp_fever :: Component where
  "comp_fever =
     \<lparr>store = store_ab, user = Some ''u1'', input = ''fever since yesterday '',
      media' = [], loading = False, effects = []\<rparr>"

definition reply_hydrate :: ChatApiResponse where
  "reply_hydrate =
     \<lparr>resp_session_id = ''a'', resp_title = None,
      response = Some ''Stay hydrated and monitor temperature.''\<rparr>"

definition env_ok :: Env where
  "env_ok =
     \<lparr>session_new_reply = NetworkError, randomUUID = ''local-1'',
      chat_reply = Response 200 (Json reply_hydrate)\<rparr>"

definition env_down :: Env where
  "env_down =
     \<lparr>session_new_reply = NetworkError, randomUUID = ''local-1'',
      chat_reply = NetworkError\<rparr>"

definition env_500 :: Env where
  "env_500 = env_ok\<lparr>chat_reply := Response 500 (Json reply_hydrate)\<rparr>"

definition env_garbled :: Env where
  "env_garbled = env_ok\<lparr>chat_reply := Response 200 NotJson\<rparr>"

definition env_null :: Env where
  "env_null = env_ok\<lparr>chat_reply := Response 200 JsonNull\<rparr>"

definition comp_idle :: Component where
  "comp_idle =
     \<lparr>store = initial_store, user = Some ''u1'', input = [], media' = [],
      loading = False, effects = []\<rparr>"


definition comp_talk :: Component where
  "comp_talk = comp_idle\<lparr>input := ''hello''\<rparr>"

text \<open>
  The user has picked the session \<open>constructor\<close> from the list and its messages are
  not loaded yet.
\<close>

definition comp_ctor :: Component where
  "comp_ctor =
     \<lparr>store = \<lparr>sessions = [new_chat ''constructor''],
                activeSessionId = Some ''constructor'',
                messagesBySession = Map.empty, language = ''auto''\<rparr>,
      user = Some ''u1'', input = ''hello'', media' = [], loading = False, effects = []\<rparr>"

definition comp_blank :: Component where
  "comp_blank =
     \<lparr>store = store_ab, user = Some ''u1'', input = ''  '', media' = [],
      loading = False, effects = []\<rparr>"

section \<open>The voice capture (ChatInterface.tsx)\<close>

text \<open>
  The part of \<open>startVoiceRecording\<close> that C8 is about: the \<open>onerror\<close> handler of the
  live recognition session and the raw-recording start it falls back to. A stream and
  the recorder on it are named by a number; \<open>calls\<close> is the log of what was asked of
  the browser's media devices, in order.
\<close>

datatype device_call = GetUserMedia | NewMediaRecorder nat | RecorderStart nat

datatype media_error = NotAllowed | NotSupported

text \<open>
  What the fallback can meet: \<open>getUserMedia\<close> resolves with a stream and the recorder
  starts, \<open>getUserMedia\<close> rejects, or it resolves and \<open>new MediaRecorder\<close> throws.
\<close>

datatype mic_outcome = MicGranted nat | MicDenied | RecorderFailed nat

record Voice =
  recording :: bool
  voiceBusy :: bool
  voiceError :: string
  speechRef :: "string option"
  mediaRecorderRef :: "nat option"
  mediaStreamRef :: "nat option"
  audioChunks :: "string list"
  calls :: "device_call list"

text \<open>
  \<open>startBackendRecordingCapture\<close>: \<open>Inl\<close> is the exception the returned promise
  rejects with, together with the state at the throw.
\<close>

definition startBackendRecordingCapture ::
  "mic_outcome \<Rightarrow> Voice \<Rightarrow> media_error \<times> Voice + Voice" where
  "startBackendRecordingCapture out v =
     (let v0 = v\<lparr>calls := calls v @ [GetUserMedia]\<rparr>
      in case out of
           MicDenied \<Rightarrow> Inl (NotAllowed, v0)
         | RecorderFailed stream \<Rightarrow>
             Inl (NotSupported,
                  v0\<lparr>mediaStreamRef := Some stream, audioChunks := [],
                     calls := calls v0 @ [NewMediaRecorder stream]\<rparr>)
         | MicGranted stream \<Rightarrow>
             Inr (v0\<lparr>mediaStreamRef := Some stream, audioChunks := [],
                     mediaRecorderRef := Some stream, recording := True, voiceBusy := False,
                     calls := calls v0 @ [NewMediaRecorder stream, RecorderStart stream]\<rparr>))"

text \<open>
  \<open>rec.onerror\<close>, with the \<open>.catch\<close> on the fallback's promise folded in: the state
  once the fallback has settled.
\<close>

definition rec_onerror :: "string \<Rightarrow> mic_outcome \<Rightarrow> Voice \<Rightarrow> Voice" where
  "rec_onerror error out v =
     (if error = ''network'' then
        let v1 = v\<lparr>voiceError :=
                     ''Browser voice service unavailable. Falling back to in-app recording.'',
                   speechRef := None, recording := False, voiceBusy := True\<rparr>
        in (case startBackendRecordingCapture out v1 of
              Inr v2 \<Rightarrow> v2
            | Inl (e, v2) \<Rightarrow>
                v2\<lparr>voiceBusy := False,
                   voiceError := ''Microphone access denied or unavailable.''\<rparr>)
      else v\<lparr>voiceError := ''Voice recognition error: '' @ error\<rparr>)"

definition voice_live :: Voice where
  "voice_live =
     \<lparr>recording = True, voiceBusy = True, voiceError = [], speechRef = Some ''en-IN'',
      mediaRecorderRef = None, mediaStreamRef = None, audioChunks = [], calls = []\<rparr>"

section \<open>Properties of the store\<close>

lemma spread_messages_eq:
  "spread_messages s k = (if inherited_member s k then Inl TypeError else Inr (messagesOf s k))"
  by (simp add: spread_messages_def get_property_def inherited_member_def messagesOf_def
      split: option.splits)

lemma appendMessage_call_eq:
  "appendMessage_call k m s =
     (if inherited_member s k then Inl TypeError
      else Inr (s\<lparr>messagesBySession := (messagesBySession s)(k \<mapsto> messagesOf s k @ [m])\<rparr>))"
  by (simp add: appendMessage_call_def spread_messages_eq)

lemma appendMessage_eq:
  "appendMessage k m s =
     (if inherited_member s k then s
      else s\<lparr>messagesBySession := (messagesBySession s)(k \<mapsto> messagesOf s k @ [m])\<rparr>)"
  by (simp add: appendMessage_def appendMessage_call_eq)

text \<open>
  C1. For any prior store state, \<open>removeSession id\<close> leaves no session with that id
  in the session list and keeps every other session, deletes the id's entry from
  \<open>messagesBySession\<close>, and leaves \<open>activeSessionId\<close> unchanged when it was not the id
  and sets it to null when it was.
\<close>

theorem removeSession_effect:
  "sessionId \<notin> id' ` set (sessions (removeSession sessionId s)) \<and>
   set (sessions (removeSession sessionId s)) =
     {x \<in> set (sessions s). id' x \<noteq> sessionId} \<and>
   messagesBySession (removeSession sessionId s) sessionId = None \<and>
   dom (messagesBySession (removeSession sessionId s)) =
     dom (messagesBySession s) - {sessionId} \<and>
   (activeSessionId s \<noteq> Some sessionId \<longrightarrow>
      activeSessionId (removeSession sessionId s) = activeSessionId s) \<and>
   (activeSessionId s = Some sessionId \<longrightarrow>
      activeSessionId (removeSession sessionId s) = None)"
  by (auto simp: removeSession_def Let_def)

theorem removeSession_effect_witness:
  "activeSessionId store_ab = Some ''a'' \<and>
   activeSessionId (removeSession ''a'' store_ab) = None \<and>
   activeSessionId store_ab \<noteq> Some ''b'' \<and>
   activeSessionId (removeSession ''b'' store_ab) = Some ''a'' \<and>
   ''a'' \<notin> id' ` set (sessions (removeSession ''a'' store_ab)) \<and>
   messagesBySession (removeSession ''a'' store_ab) ''a'' = None"
proof -
  have a: "activeSessionId store_ab = Some ''a''"
    by (simp add: store_ab_def)
  have nb: "activeSessionId store_ab \<noteq> Some ''b''"
    by (simp add: a)
  note A = removeSession_effect [of "''a''" store_ab]
  note B = removeSession_effect [of "''b''" store_ab]
  have "activeSessionId (removeSession ''a'' store_ab) = None"
    using A a by blast
  moreover have "activeSessionId (removeSession ''b'' store_ab) = Some ''a''"
    using B nb a by metis
  moreover have "''a'' \<notin> id' ` set (sessions (removeSession ''a'' store_ab))"
    using A by blast
  moreover have "messagesBySession (removeSession ''a'' store_ab) ''a'' = None"
    using A by blast
  ultimately show ?thesis
    using a nb by blast
qed

text \<open>
  C10. \<open>setMessages\<close>, \<open>appendMessage\<close> and \<open>clearSessionMessages\<close> on a session
  id change nothing but the \<open>messagesBySession\<close> entry of that id: the session list,
  \<open>activeSessionId\<close>, the language and the message sequence of every other id stay as
  they were.
\<close>

theorem message_ops_frame:
  "f \<in> {setMessages sessionId ms, appendMessage sessionId m, clearSessionMessages sessionId}
   \<Longrightarrow> sessions (f s) = sessions s \<and>
       activeSessionId (f s) = activeSessionId s \<and>
       language (f s) = language s \<and>
       (\<forall>k. k \<noteq> sessionId \<longrightarrow> messagesBySession (f s) k = messagesBySession s k)"
  by (auto simp: setMessages_def appendMessage_eq clearSessionMessages_def)

theorem message_ops_frame_witness:
  "''b'' \<noteq> ''a'' \<and>
   sessions (appendMessage ''a'' msg_reply store_ab) = sessions store_ab \<and>
   activeSessionId (setMessages ''a'' [] store_ab) = Some ''a'' \<and>
   language (clearSessionMessages ''a'' store_ab) = ''hi-IN'' \<and>
   messagesBySession (appendMessage ''a'' msg_reply store_ab) ''b'' = Some [msg_reply] \<and>
   messagesBySession (setMessages ''a'' [] store_ab) ''b'' = Some [msg_reply] \<and>
   messagesBySession (clearSessionMessages ''a'' store_ab) ''b'' = Some [msg_reply]"
proof -
  have ne: "''b'' \<noteq> ''a''"
    by simp
  have old: "messagesBySession store_ab ''b'' = Some [msg_reply]"
    "activeSessionId store_ab = Some ''a''" "language store_ab = ''hi-IN''"
    by (simp_all add: store_ab_def)
  have ap: "appendMessage ''a'' msg_reply \<in>
      {setMessages ''a'' [], appendMessage ''a'' msg_reply, clearSessionMessages ''a''}"
    and se: "setMessages ''a'' [] \<in>
      {setMessages ''a'' [], appendMessage ''a'' msg_reply, clearSessionMessages ''a''}"
    and cl: "clearSessionMessages ''a'' \<in>
      {setMessages ''a'' [], appendMessage ''a'' msg_reply, clearSessionMessages ''a''}"
    by simp_all
  show ?thesis
    using message_ops_frame [OF ap, of store_ab] message_ops_frame [OF se, of store_ab]
      message_ops_frame [OF cl, of store_ab] ne old
    by metis
qed

subsection \<open>The two invariants of the data model\<close>

lemma session_ids_retitle:
  "session_ids (map (\<lambda>x. if id' x = k then x\<lparr>title := t\<rparr> else x) xs) = session_ids xs"
  by (induction xs) (auto simp: session_ids_def)

lemma session_ids_updateSessionTitle:
  "session_ids (sessions (updateSessionTitle k t s)) = session_ids (sessions s)"
  by (simp add: updateSessionTitle_def session_ids_retitle)

lemma session_ids_removeSession:
  "session_ids (sessions (removeSession k s)) = session_ids (sessions s) - {k}"
  by (auto simp: removeSession_def session_ids_def Let_def)

lemma active_exists_step:
  assumes "active_exists s" and "caller_keeps_active op s"
  shows "active_exists (apply_op op s)"
proof (cases op)
  case (SetActiveSession a)
  with assms show ?thesis
    by (cases a) (simp_all add: active_exists_def setActiveSession_def)
next
  case (RemoveSession k)
  have "activeSessionId (removeSession k s) =
      (if activeSessionId s = Some k then None else activeSessionId s)"
    by (simp add: removeSession_def Let_def)
  with assms(1) RemoveSession show ?thesis
    by (auto simp: active_exists_def session_ids_removeSession split: option.splits if_splits)
next
  case (UpdateSessionTitle k t)
  have "activeSessionId (updateSessionTitle k t s) = activeSessionId s"
    by (simp add: updateSessionTitle_def)
  with assms(1) UpdateSessionTitle show ?thesis
    by (simp add: active_exists_def session_ids_updateSessionTitle split: option.splits)
qed (use assms in \<open>auto simp: active_exists_def setLanguage_def setSessions_def
      setMessages_def appendMessage_eq clearSessionMessages_def split: option.splits\<close>)

lemma keys_have_sessions_step:
  assumes "keys_have_sessions s" and "caller_keeps_keys op s"
  shows "keys_have_sessions (apply_op op s)"
proof (cases op)
  case (RemoveSession k)
  have "dom (messagesBySession (removeSession k s)) = dom (messagesBySession s) - {k}"
    by (auto simp: removeSession_def Let_def)
  with assms(1) RemoveSession show ?thesis
    by (auto simp: keys_have_sessions_def session_ids_removeSession)
next
  case (UpdateSessionTitle k t)
  have "messagesBySession (updateSessionTitle k t s) = messagesBySession s"
    by (simp add: updateSessionTitle_def)
  with assms(1) UpdateSessionTitle show ?thesis
    by (simp add: keys_have_sessions_def session_ids_updateSessionTitle)
qed (use assms in \<open>auto simp: keys_have_sessions_def setLanguage_def setSessions_def
      setActiveSession_def setMessages_def appendMessage_eq clearSessionMessages_def
      split: if_splits\<close>)

text \<open>
  C6, as stated, fails: \<open>setActiveSession\<close> stores whatever id it is given. From the
  initial store, one call with the id of no session leaves \<open>activeSessionId\<close> naming
  a session that does not exist.
\<close>

theorem active_exists_counterexample:
  "\<not> active_exists (run_ops [SetActiveSession (Some ''x'')] initial_store)"
  by (simp add: active_exists_def setActiveSession_def initial_store_def session_ids_def)

text \<open>
  C6, amended. Starting from a store in which \<open>activeSessionId\<close> is null or names a
  session of the list, after any sequence of store operations in which every
  \<open>setActiveSession\<close> is given null or the id of a session in the list and every
  \<open>setSessions\<close> is given a list that contains the active session, \<open>activeSessionId\<close>
  is still null or names a session of the list; and removing the active session sets
  \<open>activeSessionId\<close> to null.
\<close>

theorem active_exists_preserved:
  assumes "active_exists s" and "respected caller_keeps_active ops s"
  shows "active_exists (run_ops ops s) \<and>
         (\<forall>a. activeSessionId s = Some a \<longrightarrow>
              activeSessionId (apply_op (RemoveSession a) s) = None)"
proof
  from assms show "active_exists (run_ops ops s)"
  proof (induction ops arbitrary: s)
    case Nil
    then show ?case by simp
  next
    case (Cons op ops)
    from Cons.prems have "active_exists (apply_op op s)"
      by (simp add: active_exists_step)
    moreover from Cons.prems have "respected caller_keeps_active ops (apply_op op s)"
      by simp
    ultimately show ?case
      using Cons.IH by simp
  qed
  show "\<forall>a. activeSessionId s = Some a \<longrightarrow>
      activeSessionId (apply_op (RemoveSession a) s) = None"
    by (simp add: removeSession_def Let_def)
qed

theorem active_exists_preserved_witness:
  "active_exists store_ab \<and>
   respected caller_keeps_active
     [SetActiveSession (Some ''b''), RemoveSession ''b'', AppendMessage ''a'' msg_reply]
     store_ab \<and>
   active_exists
     (run_ops [SetActiveSession (Some ''b''), RemoveSession ''b'', AppendMessage ''a'' msg_reply]
        store_ab) \<and>
   activeSessionId store_ab = Some ''a'' \<and>
   activeSessionId (apply_op (RemoveSession ''a'') store_ab) = None"
proof -
  have inv: "active_exists store_ab"
    by (simp add: active_exists_def store_ab_def session_ids_def)
  have ok: "respected caller_keeps_active
      [SetActiveSession (Some ''b''), RemoveSession ''b'', AppendMessage ''a'' msg_reply]
      store_ab"
    by (simp add: store_ab_def session_ids_def setActiveSession_def removeSession_def)
  have a: "activeSessionId store_ab = Some ''a''"
    by (simp add: store_ab_def)
  show ?thesis
    using active_exists_preserved [OF inv ok] inv ok a by blast
qed

text \<open>
  C7, as stated, fails: \<open>setMessages\<close> writes the key it is given. From the initial
  store, one call leaves a key of \<open>messagesBySession\<close> for which there is no session.
\<close>

theorem keys_have_sessions_counterexample:
  "\<not> keys_have_sessions (run_ops [SetMessages ''x'' []] initial_store)"
  by (simp add: keys_have_sessions_def setMessages_def initial_store_def session_ids_def)

text \<open>
  C7, amended. Starting from a store in which every key of \<open>messagesBySession\<close> is
  the id of a session in the list, after any sequence of store operations in which
  \<open>setMessages\<close>, \<open>appendMessage\<close> and \<open>clearSessionMessages\<close> are given the id of a
  session in the list and every \<open>setSessions\<close> is given a list that covers all keys,
  every key is still the id of a session in the list; \<open>removeSession\<close> is one
  transition that removes the key together with the session, so the state after it has
  neither.
\<close>

theorem keys_have_sessions_preserved:
  assumes "keys_have_sessions s" and "respected caller_keeps_keys ops s"
  shows "keys_have_sessions (run_ops ops s) \<and>
         k \<notin> dom (messagesBySession (apply_op (RemoveSession k) s)) \<and>
         k \<notin> session_ids (sessions (apply_op (RemoveSession k) s))"
proof (intro conjI)
  from assms show "keys_have_sessions (run_ops ops s)"
  proof (induction ops arbitrary: s)
    case Nil
    then show ?case by simp
  next
    case (Cons op ops)
    from Cons.prems have "keys_have_sessions (apply_op op s)"
      by (simp add: keys_have_sessions_step)
    moreover from Cons.prems have "respected caller_keeps_keys ops (apply_op op s)"
      by simp
    ultimately show ?case
      using Cons.IH by simp
  qed
  show "k \<notin> dom (messagesBySession (apply_op (RemoveSession k) s))"
    by (simp add: removeSession_def Let_def)
  show "k \<notin> session_ids (sessions (apply_op (RemoveSession k) s))"
    by (simp add: session_ids_removeSession)
qed

theorem keys_have_sessions_preserved_witness:
  "keys_have_sessions store_ab \<and>
   respected caller_keeps_keys
     [AppendMessage ''b'' msg_hello, RemoveSession ''b'', SetMessages ''a'' []] store_ab \<and>
   keys_have_sessions
     (run_ops [AppendMessage ''b'' msg_hello, RemoveSession ''b'', SetMessages ''a'' []]
        store_ab) \<and>
   ''b'' \<notin> dom (messagesBySession (apply_op (RemoveSession ''b'') store_ab)) \<and>
   ''b'' \<notin> session_ids (sessions (apply_op (RemoveSession ''b'') store_ab))"
proof -
  have inv: "keys_have_sessions store_ab"
    by (simp add: keys_have_sessions_def store_ab_def session_ids_def)
  have ok: "respected caller_keeps_keys
      [AppendMessage ''b'' msg_hello, RemoveSession ''b'', SetMessages ''a'' []] store_ab"
    by (simp add: store_ab_def session_ids_def appendMessage_eq inherited_member_def
        removeSession_def)
  show ?thesis
    using keys_have_sessions_preserved [OF inv ok, of "''b''"] inv ok by blast
qed

section \<open>Properties of the language normalisation\<close>

lemma prototype_keys_checked:
  "list_all (\<lambda>k. map_of lang_table k = None \<and> k \<noteq> [] \<and> k \<noteq> ''auto'')
     object_prototype_keys"
  by code_simp

lemma prototype_key_not_in_table:
  assumes "k \<in> set object_prototype_keys"
  shows "map_of lang_table k = None" and "k \<noteq> []" and "k \<noteq> ''auto''"
  using assms prototype_keys_checked by (auto simp: list_all_iff)

text \<open>
  C9, as stated, fails: a code that is not in the table is returned as it was given,
  not replaced by the default. \<open>fr\<close> is non-empty, is not \<open>auto\<close>, has no table
  entry, and comes back as \<open>fr\<close>.
\<close>

theorem normalizeUiLanguage_counterexample:
  "map_of lang_table (toLowerCase (trim ''fr'')) = None \<and>
   normalizeUiLanguage ''fr'' = JsString ''fr'' \<and>
   normalizeUiLanguage ''fr'' \<noteq> JsString ''en-IN''"
  by code_simp

text \<open>
  C9, amended. Let \<open>lowered\<close> be the code trimmed and lower-cased. When \<open>lowered\<close> is
  non-empty, is not \<open>auto\<close>, has no entry in the table and is not the name of a
  member of \<open>Object.prototype\<close>, \<open>normalizeUiLanguage\<close> returns the code unchanged;
  when \<open>lowered\<close> is the name of such a member (\<open>constructor\<close>, \<open>__proto__\<close>), the
  table lookup finds the inherited member and that is returned; when \<open>lowered\<close> has an
  entry, the result is the entry's region-qualified code, which is the first two letters
  of the key followed by \<open>-IN\<close>; \<open>auto\<close> stays \<open>auto\<close>; and an empty input, or one
  that trims to nothing, yields the default \<open>en-IN\<close>.
\<close>

theorem normalizeUiLanguage_cases:
  "(toLowerCase (trim code) \<noteq> [] \<and> toLowerCase (trim code) \<noteq> ''auto'' \<and>
      map_of lang_table (toLowerCase (trim code)) = None \<and>
      toLowerCase (trim code) \<notin> set object_prototype_keys
        \<longrightarrow> normalizeUiLanguage code = JsString code) \<and>
   (toLowerCase (trim code) \<in> set object_prototype_keys
        \<longrightarrow> normalizeUiLanguage code = PrototypeMember (toLowerCase (trim code))) \<and>
   (\<forall>v. map_of lang_table (toLowerCase (trim code)) = Some v
        \<longrightarrow> normalizeUiLanguage code = JsString v \<and>
            v = take 2 (toLowerCase (trim code)) @ ''-IN'') \<and>
   (toLowerCase (trim code) = ''auto'' \<longrightarrow> normalizeUiLanguage code = JsString ''auto'') \<and>
   (toLowerCase (trim code) = [] \<longrightarrow> normalizeUiLanguage code = JsString ''en-IN'') \<and>
   normalizeUiLanguage [] = JsString ''en-IN''"
proof (intro conjI allI impI)
  fix v
  assume v: "map_of lang_table (toLowerCase (trim code)) = Some v"
  then have "(toLowerCase (trim code), v) \<in> set lang_table"
    by (rule map_of_SomeD)
  then show "v = take 2 (toLowerCase (trim code)) @ ''-IN''"
    by (auto simp: lang_table_def)
  from v have "toLowerCase (trim code) \<noteq> []" "toLowerCase (trim code) \<noteq> ''auto''"
    by (auto simp: lang_table_def)
  with v show "normalizeUiLanguage code = JsString v"
    by (simp add: normalizeUiLanguage_def get_property_def Let_def)
next
  assume "toLowerCase (trim code) \<in> set object_prototype_keys"
  with prototype_key_not_in_table [of "toLowerCase (trim code)"]
  show "normalizeUiLanguage code = PrototypeMember (toLowerCase (trim code))"
    by (simp add: normalizeUiLanguage_def get_property_def Let_def)
next
  show "normalizeUiLanguage [] = JsString ''en-IN''"
    by (simp add: normalizeUiLanguage_def toLowerCase_def trim_def)
qed (simp_all add: normalizeUiLanguage_def get_property_def Let_def)

theorem normalizeUiLanguage_cases_witness:
  "toLowerCase (trim ''fr-FR'') \<noteq> [] \<and> toLowerCase (trim ''fr-FR'') \<noteq> ''auto'' \<and>
   map_of lang_table (toLowerCase (trim ''fr-FR'')) = None \<and>
   toLowerCase (trim ''fr-FR'') \<notin> set object_prototype_keys \<and>
   normalizeUiLanguage ''fr-FR'' = JsString ''fr-FR'' \<and>
   toLowerCase (trim '' Constructor '') \<in> set object_prototype_keys \<and>
   normalizeUiLanguage '' Constructor '' = PrototypeMember ''constructor'' \<and>
   map_of lang_table (toLowerCase (trim '' TA-in '')) = Some ''ta-IN'' \<and>
   normalizeUiLanguage '' TA-in '' = JsString ''ta-IN'' \<and>
   toLowerCase (trim ''Auto'') = ''auto'' \<and> normalizeUiLanguage ''Auto'' = JsString ''auto'' \<and>
   toLowerCase (trim ''  '') = [] \<and> normalizeUiLanguage ''  '' = JsString ''en-IN''"
proof -
  have fr: "toLowerCase (trim ''fr-FR'') \<noteq> []" "toLowerCase (trim ''fr-FR'') \<noteq> ''auto''"
    "map_of lang_table (toLowerCase (trim ''fr-FR'')) = None"
    "toLowerCase (trim ''fr-FR'') \<notin> set object_prototype_keys"
    by code_simp+
  have co: "toLowerCase (trim '' Constructor '') = ''constructor''"
    by code_simp
  have ck: "''constructor'' \<in> set object_prototype_keys"
    by (simp add: object_prototype_keys_def)
  have ta: "map_of lang_table (toLowerCase (trim '' TA-in '')) = Some ''ta-IN''"
    by code_simp
  have au: "toLowerCase (trim ''Auto'') = ''auto''"
    by code_simp
  have sp: "toLowerCase (trim ''  '') = []"
    by code_simp
  have "normalizeUiLanguage '' Constructor '' = PrototypeMember ''constructor''"
    using normalizeUiLanguage_cases [of "'' Constructor ''"] co ck by simp
  moreover have "normalizeUiLanguage ''fr-FR'' = JsString ''fr-FR''"
    using normalizeUiLanguage_cases [of "''fr-FR''"] fr by blast
  moreover have "normalizeUiLanguage '' TA-in '' = JsString ''ta-IN''"
    using normalizeUiLanguage_cases [of "'' TA-in ''"] ta by blast
  moreover have "normalizeUiLanguage ''Auto'' = JsString ''auto''"
    using normalizeUiLanguage_cases [of "''Auto''"] au by blast
  moreover have "normalizeUiLanguage ''  '' = JsString ''en-IN''"
    using normalizeUiLanguage_cases [of "''  ''"] sp by blast
  moreover have "toLowerCase (trim '' Constructor '') \<in> set object_prototype_keys"
    using co ck by simp
  ultimately show ?thesis
    using fr ta au sp by blast
qed

section \<open>Properties of the message exchange\<close>

subsection \<open>The reply\<close>

lemma fetch_json_success:
  "r = Response status (Json d) \<Longrightarrow> 200 \<le> status \<Longrightarrow> status \<le> 299 \<Longrightarrow> fetch_json r = Inr d"
  by (simp add: fetch_json_def ok_def)

lemma fetch_json_failure:
  assumes "r = NetworkError \<or>
    (\<exists>status b. r = Response status b \<and>
       (status < 200 \<or> 299 < status \<or> b = NotJson \<or> b = JsonNull))"
  shows "\<exists>e. fetch_json r = Inl e"
  using assms by (auto simp: fetch_json_def ok_def)

subsection \<open>One turn\<close>

lemma truthy_Some: "k \<noteq> [] \<Longrightarrow> truthy (Some k) = Some k"
  by (simp add: truthy_def)

lemma messagesBySession_updateSessionTitle:
  "messagesBySession (updateSessionTitle k t s) = messagesBySession s"
  by (simp add: updateSessionTitle_def)

lemma inherited_member_written:
  "\<not> inherited_member (s\<lparr>messagesBySession := (m(k \<mapsto> ms))\<rparr>) k"
  by (simp add: inherited_member_def)

lemma messagesOf_written:
  "messagesOf (s\<lparr>messagesBySession := (m(k \<mapsto> ms))\<rparr>) k = ms"
  by (simp add: messagesOf_def)

lemma send_turn_nothing:
  "trim (input closure) = [] \<Longrightarrow> media' closure = [] \<Longrightarrow>
   send_turn uid sessionId env closure c = Inr c"
  by (simp add: send_turn_def)

lemma send_turn_throws:
  assumes "trim (input closure) \<noteq> [] \<or> media' closure \<noteq> []"
    and "inherited_member (store c) sessionId"
  shows "send_turn uid sessionId env closure c = Inl (TypeError, c)"
  using assms by (auto simp: send_turn_def appendMessage_call_eq Let_def)

lemma send_turn_failure:
  assumes "trim (input closure) \<noteq> [] \<or> media' closure \<noteq> []"
    and "\<not> inherited_member (store c) sessionId"
    and "fetch_json (chat_reply env) = Inl e"
  shows "\<exists>c'. send_turn uid sessionId env closure c = Inr c' \<and>
           messagesBySession (store c') sessionId =
             Some (messagesOf (store c) sessionId @
                   [user_turn (if trim (input closure) \<noteq> [] then trim (input closure)
                               else ''[Media attached]'') (media' closure),
                    assistant_turn ''Network/server error. Try again.'']) \<and>
           input c' = [] \<and>
           effects c' = effects c @
             [PostChat (chat_request uid sessionId
                (if trim (input closure) \<noteq> [] then trim (input closure)
                 else ''[Media attached]'') (language (store closure)) (media' closure))]"
  using assms
  by (auto simp: send_turn_def appendMessage_call_eq inherited_member_written messagesOf_written
      chat_try_def
      Let_def)

lemma send_turn_success:
  assumes "trim (input closure) \<noteq> [] \<or> media' closure \<noteq> []"
    and "\<not> inherited_member (store c) sessionId"
    and "fetch_json (chat_reply env) = Inr data"
  shows "\<exists>c'. send_turn uid sessionId env closure c = Inr c' \<and>
           messagesBySession (store c') sessionId =
             Some (messagesOf (store c) sessionId @
                   [user_turn (if trim (input closure) \<noteq> [] then trim (input closure)
                               else ''[Media attached]'') (media' closure),
                    assistant_turn
                      (case response data of None \<Rightarrow> ''No response.'' | Some t \<Rightarrow> t)]) \<and>
           input c' = [] \<and>
           effects c' = effects c @
             [PostChat (chat_request uid sessionId
                (if trim (input closure) \<noteq> [] then trim (input closure)
                 else ''[Media attached]'') (language (store closure)) (media' closure)),
              SetTimeout 1200 (LoadSessions uid)]"
  using assms
  by (auto simp: send_turn_def appendMessage_call_eq inherited_member_written messagesOf_written
      chat_try_def
      Let_def messagesBySession_updateSessionTitle split: option.splits)

subsection \<open>Finding the session\<close>

lemma effects_createSession:
  "user c = Some uid \<Longrightarrow> effects (createSession env c) = effects c @ [PostSessionNew uid]"
  by (simp add: createSession_def Let_def split: sum.splits)

lemma createSession_log:
  assumes "user c = Some uid"
    and "activeSessionId (store (createSession env c)) = Some k"
  shows "messagesBySession (store (createSession env c)) k = Some []"
  using assms
  by (auto simp: createSession_def Let_def setMessages_def setActiveSession_def
      setSessions_def split: sum.splits if_splits)

lemma truthy_SomeD: "truthy v = Some k \<Longrightarrow> v = Some k \<and> k \<noteq> []"
  by (auto simp: truthy_def split: option.splits if_splits)

lemma state_for_turn_log:
  assumes "user c = Some uid" and "session_for_send env c = Some k"
    and "truthy (activeSessionId (store c)) = None"
  shows "messagesBySession (store (state_for_turn env c)) k = Some []"
proof -
  from assms(3) have "state_for_turn env c = createSession env c"
    by (simp add: state_for_turn_def)
  moreover from this assms(2)
  have "activeSessionId (store (createSession env c)) = Some k"
    by (simp add: session_for_send_def truthy_SomeD)
  ultimately show ?thesis
    using createSession_log [OF assms(1)] by simp
qed

lemma state_for_turn_active:
  "truthy (activeSessionId (store c)) = Some k \<Longrightarrow> state_for_turn env c = c"
  by (simp add: state_for_turn_def)

lemma sendMessage_turn:
  assumes "user c = Some uid" and "session_for_send env c = Some k"
  shows "sendMessage env c = send_turn uid k env c (state_for_turn env c)"
  using assms
  by (auto simp: sendMessage_def session_for_send_def state_for_turn_def Let_def
      split: option.splits)

lemma effects_state_for_turn:
  "user c = Some uid \<Longrightarrow>
   filter is_timer (effects (state_for_turn env c)) = filter is_timer (effects c) \<and>
   filter is_chat_request (effects (state_for_turn env c)) = filter is_chat_request (effects c)"
  by (simp add: state_for_turn_def effects_createSession split: option.splits)

lemma old_log:
  assumes "user c = Some uid" and "session_for_send env c = Some k"
  shows "messagesOf (store (state_for_turn env c)) k =
     (if truthy (activeSessionId (store c)) = None then [] else messagesOf (store c) k)"
proof (cases "truthy (activeSessionId (store c))")
  case None
  with state_for_turn_log [OF assms] show ?thesis
    by (simp add: messagesOf_def)
next
  case (Some j)
  then show ?thesis
    by (simp add: state_for_turn_active)
qed

text \<open>
  The call that the theorems below leave out: with an active session whose id names
  an inherited member and has no message sequence yet, the first \<open>appendMessage\<close>
  throws, the promise rejects, nothing has changed and no request has been sent.
\<close>

lemma sendMessage_throws:
  assumes "user c = Some uid"
    and "activeSessionId (store c) = Some sessionId" and "sessionId \<noteq> []"
    and "inherited_member (store c) sessionId"
    and "trim (input c) \<noteq> [] \<or> media' c \<noteq> []"
  shows "sendMessage env c = Inl (TypeError, c)"
  using assms by (simp add: sendMessage_def truthy_Some send_turn_throws)

subsection \<open>Examples evaluated\<close>

lemma trim_fever: "trim ''fever since yesterday '' = ''fever since yesterday''"
  by code_simp

lemma trim_blank: "trim ''  '' = []"
  by code_simp

lemma trim_hello: "trim ''hello'' = ''hello''"
  by code_simp

lemma comp_fever_fields:
  "user comp_fever = Some ''u1''" "activeSessionId (store comp_fever) = Some ''a''"
  "input comp_fever = ''fever since yesterday ''" "media' comp_fever = []"
  "messagesOf (store comp_fever) ''a'' = [msg_hello]" "effects comp_fever = []"
  "\<not> inherited_member (store comp_fever) ''a''" "language (store comp_fever) = ''hi-IN''"
  by (simp_all add: comp_fever_def store_ab_def messagesOf_def inherited_member_def)

lemma session_for_send_fever: "session_for_send env comp_fever = Some ''a''"
  by (simp add: session_for_send_def state_for_turn_def comp_fever_fields truthy_def)

lemma state_for_turn_fever: "state_for_turn env comp_fever = comp_fever"
  by (simp add: state_for_turn_def comp_fever_fields truthy_def)

lemma sendMessage_idle:
  "sendMessage env_down comp_idle =
     Inr \<lparr>store = \<lparr>sessions = [new_chat ''local-1''], activeSessionId = Some ''local-1'',
                   messagesBySession = [''local-1'' \<mapsto> []], language = ''auto''\<rparr>,
          user = Some ''u1'', input = [], media' = [], loading = False,
          effects = [PostSessionNew ''u1'']\<rparr>"
  by (simp add: sendMessage_def comp_idle_def env_down_def initial_store_def truthy_def
      createSession_def fetch_json_def Let_def setSessions_def setActiveSession_def
      setMessages_def send_turn_def trim_def)

lemma comp_talk_fields:
  "user comp_talk = Some ''u1''" "input comp_talk = ''hello''" "media' comp_talk = []"
  "effects comp_talk = []" "truthy (activeSessionId (store comp_talk)) = None"
  by (simp_all add: comp_talk_def comp_idle_def initial_store_def truthy_def)

lemma session_for_send_talk:
  assumes "session_new_reply env = NetworkError" and "randomUUID env = ''local-1''"
  shows "session_for_send env comp_talk = Some ''local-1''"
proof -
  have "state_for_turn env comp_talk = createSession env comp_talk"
    by (simp add: state_for_turn_def comp_talk_fields)
  moreover have "activeSessionId (store (createSession env comp_talk)) = Some ''local-1''"
    using assms
    by (simp add: createSession_def comp_talk_fields fetch_json_def Let_def setSessions_def
        setActiveSession_def setMessages_def)
  ultimately show ?thesis
    by (simp add: session_for_send_def truthy_Some)
qed

lemma env_fields:
  "chat_reply env_ok = Response 200 (Json reply_hydrate)"
  "chat_reply env_down = NetworkError"
  "chat_reply env_500 = Response 500 (Json reply_hydrate)"
  "chat_reply env_garbled = Response 200 NotJson"
  "chat_reply env_null = Response 200 JsonNull"
  "session_new_reply env_ok = NetworkError" "randomUUID env_ok = ''local-1''"
  "session_new_reply env_down = NetworkError" "randomUUID env_down = ''local-1''"
  by (simp_all add: env_ok_def env_down_def env_500_def env_garbled_def env_null_def)

lemma sendMessage_constructor: "sendMessage env_ok comp_ctor = Inl (TypeError, comp_ctor)"
proof -
  have "user comp_ctor = Some ''u1''" "activeSessionId (store comp_ctor) = Some ''constructor''"
    "''constructor'' \<noteq> []" "inherited_member (store comp_ctor) ''constructor''"
    "trim (input comp_ctor) \<noteq> [] \<or> media' comp_ctor \<noteq> []"
    by (simp_all add: comp_ctor_def inherited_member_def object_prototype_keys_def trim_hello)
  then show ?thesis
    by (rule sendMessage_throws)
qed


section \<open>What a call of sendMessage does\<close>

text \<open>
  C2. When \<open>sendMessage\<close> is called with a signed-in user, an active session, an
  input that does not trim to nothing, and the chat request is answered with a status
  from 200 to 299 and a JSON body, the call resolves, the session's message sequence is
  the old one followed by exactly two messages, the user message with the trimmed input
  as text and then the assistant message with the reply's \<open>response\<close> (or
  \<open>No response.\<close> when the field is absent), and the local input is empty. The
  request is sent, and so answered, only when the first \<open>appendMessage\<close> has not
  thrown: the theorem says so with \<open>\<not> inherited_member\<close>.
\<close>

theorem sendMessage_success:
  assumes "user c = Some uid"
    and "activeSessionId (store c) = Some sessionId" and "sessionId \<noteq> []"
    and "\<not> inherited_member (store c) sessionId"
    and "trim (input c) \<noteq> []"
    and "chat_reply env = Response status (Json data)"
    and "200 \<le> status" and "status \<le> 299"
  shows "\<exists>c'. sendMessage env c = Inr c' \<and>
           messagesBySession (store c') sessionId =
             Some (messagesOf (store c) sessionId @
                   [\<lparr>role = User, text' = trim (input c),
                     media = (if media' c = [] then None else Some (media' c))\<rparr>,
                    \<lparr>role = Assistant,
                     text' = (case response data of Some t \<Rightarrow> t | None \<Rightarrow> ''No response.''),
                     media = None\<rparr>]) \<and>
           input c' = []"
proof -
  have f: "fetch_json (chat_reply env) = Inr data"
    using assms(6-8) by (rule fetch_json_success)
  have s: "sendMessage env c = send_turn uid sessionId env c c"
    using assms(1-3) by (simp add: sendMessage_def truthy_Some)
  have t: "trim (input c) \<noteq> [] \<or> media' c \<noteq> []"
    using assms(5) by simp
  from send_turn_success [OF t assms(4) f, of uid] s assms(5) show ?thesis
    by (auto simp: user_turn_def assistant_turn_def split: option.splits)
qed

theorem sendMessage_success_witness:
  "user comp_fever = Some ''u1'' \<and> activeSessionId (store comp_fever) = Some ''a'' \<and>
   ''a'' \<noteq> [] \<and> \<not> inherited_member (store comp_fever) ''a'' \<and>
   trim (input comp_fever) \<noteq> [] \<and>
   chat_reply env_ok = Response 200 (Json reply_hydrate) \<and>
   (200::nat) \<le> 200 \<and> (200::nat) \<le> 299 \<and>
   messagesBySession (store (projr (sendMessage env_ok comp_fever))) ''a'' =
     Some [msg_hello, user_turn ''fever since yesterday'' [],
           assistant_turn ''Stay hydrated and monitor temperature.''] \<and>
   input (projr (sendMessage env_ok comp_fever)) = []"
proof -
  have h: "user comp_fever = Some ''u1''" "activeSessionId (store comp_fever) = Some ''a''"
    "''a'' \<noteq> []" "\<not> inherited_member (store comp_fever) ''a''"
    "trim (input comp_fever) \<noteq> []"
    "chat_reply env_ok = Response 200 (Json reply_hydrate)"
    "(200::nat) \<le> 200" "(200::nat) \<le> 299"
    by (simp_all add: comp_fever_fields trim_fever env_fields)
  from sendMessage_success [OF h] obtain c' where
    c': "sendMessage env_ok comp_fever = Inr c'"
    "messagesBySession (store c') ''a'' =
       Some (messagesOf (store comp_fever) ''a'' @
             [\<lparr>role = User, text' = trim (input comp_fever),
               media = (if media' comp_fever = [] then None else Some (media' comp_fever))\<rparr>,
              \<lparr>role = Assistant,
               text' = (case response reply_hydrate of Some t \<Rightarrow> t | None \<Rightarrow> ''No response.''),
               media = None\<rparr>])"
    "input c' = []"
    by blast
  from c' have "messagesBySession (store (projr (sendMessage env_ok comp_fever))) ''a'' =
      Some [msg_hello, user_turn ''fever since yesterday'' [],
            assistant_turn ''Stay hydrated and monitor temperature.'']"
    "input (projr (sendMessage env_ok comp_fever)) = []"
    by (simp_all add: comp_fever_fields trim_fever reply_hydrate_def user_turn_def
        assistant_turn_def)
  with h show ?thesis
    by blast
qed

text \<open>
  C3. When \<open>sendMessage\<close> is called with a signed-in user, a session (the active one,
  or the one the call creates when none is active) and something to send, and the chat
  request fails because the fetch rejects, the status is below 200 or above 299, or
  the body is not JSON or is \<open>null\<close>, the call still resolves: the session's message
  sequence is the one it had (empty for a session the call created) followed by the
  user message and then an assistant message with the text
  \<open>Network/server error. Try again.\<close>, and the local input is empty. The request
  is sent, and so can fail, only when the first \<open>appendMessage\<close> has not thrown.
\<close>

theorem sendMessage_failure:
  assumes "user c = Some uid"
    and "session_for_send env c = Some sessionId"
    and "\<not> inherited_member (store (state_for_turn env c)) sessionId"
    and "trim (input c) \<noteq> [] \<or> media' c \<noteq> []"
    and "chat_reply env = NetworkError \<or>
         (\<exists>status b. chat_reply env = Response status b \<and>
            (status < 200 \<or> 299 < status \<or> b = NotJson \<or> b = JsonNull))"
  shows "\<exists>c'. sendMessage env c = Inr c' \<and>
           messagesBySession (store c') sessionId =
             Some ((if truthy (activeSessionId (store c)) = None then []
                    else messagesOf (store c) sessionId) @
                   [\<lparr>role = User,
                     text' = (if trim (input c) \<noteq> [] then trim (input c)
                              else ''[Media attached]''),
                     media = (if media' c = [] then None else Some (media' c))\<rparr>,
                    \<lparr>role = Assistant, text' = ''Network/server error. Try again.'',
                     media = None\<rparr>]) \<and>
           input c' = []"
proof -
  from fetch_json_failure [OF assms(5)] obtain e where
    f: "fetch_json (chat_reply env) = Inl e" ..
  from send_turn_failure [OF assms(4,3) f, of uid]
    sendMessage_turn [OF assms(1,2)] old_log [OF assms(1,2)]
  show ?thesis
    by (auto simp: user_turn_def assistant_turn_def)
qed

theorem sendMessage_failure_witness:
  "user comp_fever = Some ''u1'' \<and> session_for_send env_down comp_fever = Some ''a'' \<and>
   \<not> inherited_member (store (state_for_turn env_down comp_fever)) ''a'' \<and>
   trim (input comp_fever) \<noteq> [] \<and>
   chat_reply env_down = NetworkError \<and>
   chat_reply env_500 = Response 500 (Json reply_hydrate) \<and> (299::nat) < 500 \<and>
   chat_reply env_garbled = Response 200 NotJson \<and>
   chat_reply env_null = Response 200 JsonNull \<and>
   list_all
     (\<lambda>env. messagesBySession (store (projr (sendMessage env comp_fever))) ''a'' =
               Some [msg_hello, user_turn ''fever since yesterday'' [],
                     assistant_turn ''Network/server error. Try again.''])
     [env_down, env_500, env_garbled, env_null] \<and>
   list_all (\<lambda>env. input (projr (sendMessage env comp_fever)) = [])
     [env_down, env_500, env_garbled, env_null] \<and>
   list_all (\<lambda>env. \<not> isl (sendMessage env comp_fever))
     [env_down, env_500, env_garbled, env_null] \<and>
   user comp_talk = Some ''u1'' \<and> session_for_send env_down comp_talk = Some ''local-1'' \<and>
   truthy (activeSessionId (store comp_talk)) = None \<and>
   messagesBySession (store (projr (sendMessage env_down comp_talk))) ''local-1'' =
     Some [user_turn ''hello'' [], assistant_turn ''Network/server error. Try again.''] \<and>
   input (projr (sendMessage env_down comp_talk)) = []"
proof -
  have h: "user comp_fever = Some ''u1''" "session_for_send env comp_fever = Some ''a''"
    "\<not> inherited_member (store (state_for_turn env comp_fever)) ''a''"
    "trim (input comp_fever) \<noteq> [] \<or> media' comp_fever \<noteq> []" for env
    by (simp_all add: comp_fever_fields trim_fever session_for_send_fever state_for_turn_fever)
  have R: "messagesBySession (store (projr (sendMessage env comp_fever))) ''a'' =
        Some [msg_hello, user_turn ''fever since yesterday'' [],
              assistant_turn ''Network/server error. Try again.''] \<and>
      input (projr (sendMessage env comp_fever)) = [] \<and>
      \<not> isl (sendMessage env comp_fever)"
    if "chat_reply env = NetworkError \<or>
         (\<exists>status b. chat_reply env = Response status b \<and>
            (status < 200 \<or> 299 < status \<or> b = NotJson \<or> b = JsonNull))" for env
    using sendMessage_failure [OF h that]
    by (auto simp: comp_fever_fields trim_fever user_turn_def assistant_turn_def truthy_def)
  have g: "user comp_talk = Some ''u1''" "session_for_send env_down comp_talk = Some ''local-1''"
    "trim (input comp_talk) \<noteq> [] \<or> media' comp_talk \<noteq> []"
    "truthy (activeSessionId (store comp_talk)) = None"
    by (simp_all add: comp_talk_fields trim_hello session_for_send_talk env_fields)
  have gi: "\<not> inherited_member (store (state_for_turn env_down comp_talk)) ''local-1''"
    using state_for_turn_log [OF g(1,2,4)] by (simp add: inherited_member_def)
  have d: "chat_reply env_down = NetworkError \<or>
         (\<exists>status b. chat_reply env_down = Response status b \<and>
            (status < 200 \<or> 299 < status \<or> b = NotJson \<or> b = JsonNull))"
    by (simp add: env_fields)
  have T: "messagesBySession (store (projr (sendMessage env_down comp_talk))) ''local-1'' =
      Some [user_turn ''hello'' [], assistant_turn ''Network/server error. Try again.''] \<and>
    input (projr (sendMessage env_down comp_talk)) = []"
    using sendMessage_failure [OF g(1,2) gi g(3) d]
    by (auto simp: comp_talk_fields trim_hello user_turn_def assistant_turn_def)
  have "trim (input comp_fever) \<noteq> []" "(299::nat) < 500"
    by (simp_all add: comp_fever_fields trim_fever)
  moreover note R [of env_down] R [of env_500] R [of env_garbled] R [of env_null] T
  ultimately show ?thesis
    using h(1) h(2) [of env_down] h(3) [of env_down] g by (simp add: env_fields)
qed

text \<open>
  C4, as stated, fails: \<open>setTimeout\<close> is the last statement of the \<open>try\<close> block,
  so it is not reached when the request fails. With the backend down, a call that
  passes its preconditions sends the chat request and sets no timer.
\<close>

theorem refresh_counterexample:
  "user comp_fever = Some ''u1'' \<and> session_for_send env_down comp_fever = Some ''a'' \<and>
   trim (input comp_fever) \<noteq> [] \<and> chat_reply env_down = NetworkError \<and>
   \<not> isl (sendMessage env_down comp_fever) \<and>
   effects (projr (sendMessage env_down comp_fever)) =
     [PostChat (chat_request ''u1'' ''a'' ''fever since yesterday'' ''hi-IN'' [])] \<and>
   filter is_timer (effects (projr (sendMessage env_down comp_fever))) = []"
proof -
  have t: "trim (input comp_fever) \<noteq> [] \<or> media' comp_fever \<noteq> []"
    by (simp add: comp_fever_fields trim_fever)
  have f: "fetch_json (chat_reply env_down) = Inl FetchFailed"
    by (simp add: env_fields fetch_json_def)
  have s: "sendMessage env_down comp_fever = send_turn ''u1'' ''a'' env_down comp_fever comp_fever"
    using sendMessage_turn [OF comp_fever_fields(1) session_for_send_fever, of env_down]
    by (simp add: state_for_turn_fever)
  from send_turn_failure [OF t comp_fever_fields(7) f, of "''u1''"] s
  have "\<not> isl (sendMessage env_down comp_fever)"
    "effects (projr (sendMessage env_down comp_fever)) =
      [PostChat (chat_request ''u1'' ''a'' ''fever since yesterday'' ''hi-IN'' [])]"
    by (auto simp: comp_fever_fields trim_fever)
  then show ?thesis
    by (simp add: comp_fever_fields trim_fever session_for_send_fever env_fields)
qed

text \<open>
  C4, amended. For every call of \<open>sendMessage\<close> that passes its preconditions (a
  signed-in user, a session id, from the active session or from the session the call
  creates, something to send, and a first \<open>appendMessage\<close> that does not throw, so
  that the request is sent): when the chat request is answered with a status from 200
  to 299 and a JSON body that is not \<open>null\<close>, the call resolves and has set exactly
  one timer, of 1200 ms, for \<open>loadSessions\<close> of the user; when the fetch rejects,
  the status is below 200 or above 299, or the body is not JSON or is \<open>null\<close>, the
  call resolves and has set none.
\<close>

theorem refresh_scheduled_on_success:
  assumes "user c = Some uid"
    and "session_for_send env c = Some sessionId"
    and "\<not> inherited_member (store (state_for_turn env c)) sessionId"
    and "trim (input c) \<noteq> [] \<or> media' c \<noteq> []"
  shows "(\<forall>status data.
            chat_reply env = Response status (Json data) \<and> 200 \<le> status \<and> status \<le> 299 \<longrightarrow>
            (\<exists>c'. sendMessage env c = Inr c' \<and>
               filter is_timer (effects c') =
                 filter is_timer (effects c) @ [SetTimeout 1200 (LoadSessions uid)])) \<and>
         (chat_reply env = NetworkError \<or>
          (\<exists>status b. chat_reply env = Response status b \<and>
             (status < 200 \<or> 299 < status \<or> b = NotJson \<or> b = JsonNull)) \<longrightarrow>
            (\<exists>c'. sendMessage env c = Inr c' \<and>
               filter is_timer (effects c') = filter is_timer (effects c)))"
proof (intro conjI allI impI)
  fix status data
  assume "chat_reply env = Response status (Json data) \<and> 200 \<le> status \<and> status \<le> 299"
  then have f: "fetch_json (chat_reply env) = Inr data"
    by (simp add: fetch_json_success)
  from send_turn_success [OF assms(4,3) f, of uid] sendMessage_turn [OF assms(1,2)]
    effects_state_for_turn [OF assms(1), of env]
  show "\<exists>c'. sendMessage env c = Inr c' \<and>
      filter is_timer (effects c') =
        filter is_timer (effects c) @ [SetTimeout 1200 (LoadSessions uid)]"
    by auto
next
  assume "chat_reply env = NetworkError \<or>
    (\<exists>status b. chat_reply env = Response status b \<and>
       (status < 200 \<or> 299 < status \<or> b = NotJson \<or> b = JsonNull))"
  from fetch_json_failure [OF this] obtain e where
    f: "fetch_json (chat_reply env) = Inl e" ..
  from send_turn_failure [OF assms(4,3) f, of uid] sendMessage_turn [OF assms(1,2)]
    effects_state_for_turn [OF assms(1), of env]
  show "\<exists>c'. sendMessage env c = Inr c' \<and>
      filter is_timer (effects c') = filter is_timer (effects c)"
    by auto
qed

theorem refresh_scheduled_on_success_witness:
  "user comp_fever = Some ''u1'' \<and> session_for_send env_ok comp_fever = Some ''a'' \<and>
   \<not> inherited_member (store (state_for_turn env_ok comp_fever)) ''a'' \<and>
   trim (input comp_fever) \<noteq> [] \<and>
   chat_reply env_ok = Response 200 (Json reply_hydrate) \<and>
   (200::nat) \<le> 200 \<and> (200::nat) \<le> 299 \<and>
   filter is_timer (effects (projr (sendMessage env_ok comp_fever))) =
     [SetTimeout 1200 (LoadSessions ''u1'')] \<and>
   chat_reply env_500 = Response 500 (Json reply_hydrate) \<and> (299::nat) < 500 \<and>
   filter is_timer (effects (projr (sendMessage env_500 comp_fever))) = [] \<and>
   chat_reply env_garbled = Response 200 NotJson \<and>
   filter is_timer (effects (projr (sendMessage env_garbled comp_fever))) = [] \<and>
   chat_reply env_null = Response 200 JsonNull \<and>
   filter is_timer (effects (projr (sendMessage env_null comp_fever))) = [] \<and>
   user comp_talk = Some ''u1'' \<and> session_for_send env_ok comp_talk = Some ''local-1'' \<and>
   filter is_timer (effects (projr (sendMessage env_ok comp_talk))) =
     [SetTimeout 1200 (LoadSessions ''u1'')]"
proof -
  have h: "user comp_fever = Some ''u1''" "session_for_send env comp_fever = Some ''a''"
    "\<not> inherited_member (store (state_for_turn env comp_fever)) ''a''"
    "trim (input comp_fever) \<noteq> [] \<or> media' comp_fever \<noteq> []" for env
    by (simp_all add: comp_fever_fields trim_fever session_for_send_fever state_for_turn_fever)
  have S: "filter is_timer (effects (projr (sendMessage env comp_fever))) =
      [SetTimeout 1200 (LoadSessions ''u1'')]"
    if "chat_reply env = Response 200 (Json reply_hydrate)" for env
    using refresh_scheduled_on_success [OF h, of env] that
    by (auto simp: comp_fever_fields)
  have F: "filter is_timer (effects (projr (sendMessage env comp_fever))) = []"
    if "chat_reply env = NetworkError \<or>
         (\<exists>status b. chat_reply env = Response status b \<and>
            (status < 200 \<or> 299 < status \<or> b = NotJson \<or> b = JsonNull))" for env
    using refresh_scheduled_on_success [OF h, of env] that
    by (auto simp: comp_fever_fields)
  have g: "user comp_talk = Some ''u1''" "session_for_send env_ok comp_talk = Some ''local-1''"
    "trim (input comp_talk) \<noteq> [] \<or> media' comp_talk \<noteq> []"
    "truthy (activeSessionId (store comp_talk)) = None"
    by (simp_all add: comp_talk_fields trim_hello session_for_send_talk env_fields)
  have gi: "\<not> inherited_member (store (state_for_turn env_ok comp_talk)) ''local-1''"
    using state_for_turn_log [OF g(1,2,4)] by (simp add: inherited_member_def)
  have T: "filter is_timer (effects (projr (sendMessage env_ok comp_talk))) =
      [SetTimeout 1200 (LoadSessions ''u1'')]"
    using refresh_scheduled_on_success [OF g(1,2) gi g(3)]
    by (auto simp: comp_talk_fields env_fields)
  have "trim (input comp_fever) \<noteq> []"
    by (simp add: comp_fever_fields trim_fever)
  moreover have "filter is_timer (effects (projr (sendMessage env_ok comp_fever))) =
      [SetTimeout 1200 (LoadSessions ''u1'')]"
    by (rule S) (simp add: env_fields)
  moreover have "filter is_timer (effects (projr (sendMessage env_500 comp_fever))) = []"
    "filter is_timer (effects (projr (sendMessage env_garbled comp_fever))) = []"
    "filter is_timer (effects (projr (sendMessage env_null comp_fever))) = []"
    by (rule F, simp add: env_fields)+
  ultimately show ?thesis
    using h(1) h(2) [of env_ok] h(3) [of env_ok] g T by (simp add: env_fields)
qed

text \<open>
  C5, as stated, fails: the session check comes before the empty-input check, so with
  no active session the call first creates one. With nothing typed, nothing attached
  and no active session, the store gains a session.
\<close>

theorem empty_send_counterexample:
  "user comp_idle = Some ''u1'' \<and> trim (input comp_idle) = [] \<and> media' comp_idle = [] \<and>
   sessions (store comp_idle) = [] \<and>
   sessions (store (projr (sendMessage env_down comp_idle))) = [new_chat ''local-1''] \<and>
   store (projr (sendMessage env_down comp_idle)) \<noteq> store comp_idle"
proof -
  have "sessions (store (projr (sendMessage env_down comp_idle))) = [new_chat ''local-1'']"
    by (simp add: sendMessage_idle)
  moreover have "sessions (store comp_idle) = []"
    by (simp add: comp_idle_def initial_store_def)
  moreover have "user comp_idle = Some ''u1''" "trim (input comp_idle) = []" "media' comp_idle = []"
    by (simp_all add: comp_idle_def trim_def)
  ultimately show ?thesis
    by auto
qed

text \<open>
  C5, amended. For every state with a signed-in user in which the input trims to
  nothing and there are no attachments: when there is an active session with a
  non-empty id, \<open>sendMessage\<close> resolves and leaves the whole state, the store
  included, as it was; and with or without an active session no chat request is sent.
\<close>

theorem empty_send_is_noop:
  assumes "user c = Some uid" and "trim (input c) = []" and "media' c = []"
  shows "(\<forall>sessionId. activeSessionId (store c) = Some sessionId \<and> sessionId \<noteq> []
            \<longrightarrow> sendMessage env c = Inr c) \<and>
         (\<exists>c'. sendMessage env c = Inr c' \<and>
            filter is_chat_request (effects c') = filter is_chat_request (effects c))"
proof
  show "\<forall>sessionId. activeSessionId (store c) = Some sessionId \<and> sessionId \<noteq> []
      \<longrightarrow> sendMessage env c = Inr c"
    using assms by (simp add: sendMessage_def truthy_Some send_turn_nothing)
  show "\<exists>c'. sendMessage env c = Inr c' \<and>
      filter is_chat_request (effects c') = filter is_chat_request (effects c)"
  proof (cases "truthy (activeSessionId (store c))")
    case (Some k)
    with assms show ?thesis
      by (simp add: sendMessage_def send_turn_nothing)
  next
    case None
    with assms effects_createSession [OF assms(1), of env] show ?thesis
      by (simp add: sendMessage_def Let_def send_turn_nothing split: option.splits)
  qed
qed

theorem empty_send_is_noop_witness:
  "user comp_blank = Some ''u1'' \<and> trim (input comp_blank) = [] \<and> media' comp_blank = [] \<and>
   activeSessionId (store comp_blank) = Some ''a'' \<and> ''a'' \<noteq> [] \<and>
   sendMessage env_ok comp_blank = Inr comp_blank \<and>
   filter is_chat_request (effects (projr (sendMessage env_ok comp_blank))) = []"
proof -
  have h: "user comp_blank = Some ''u1''" "trim (input comp_blank) = []" "media' comp_blank = []"
    by (simp_all add: comp_blank_def trim_blank)
  have a: "activeSessionId (store comp_blank) = Some ''a''" "''a'' \<noteq> []"
    "effects comp_blank = []"
    by (simp_all add: comp_blank_def store_ab_def)
  from empty_send_is_noop [OF h, of env_ok] a
  have "sendMessage env_ok comp_blank = Inr comp_blank" 
    "filter is_chat_request (effects (projr (sendMessage env_ok comp_blank))) = []"
    by auto
  with h a show ?thesis
    by blast
qed

section \<open>Properties of the voice capture\<close>

text \<open>
  C8, as stated, fails: on the \<open>network\<close> error the handler first sets the voice
  message, which the component renders, to a notice about that very condition, and the
  fallback does not clear it. With the microphone granted, the state ends in raw
  recording with the notice displayed.
\<close>

theorem rec_onerror_counterexample:
  "speechRef voice_live = Some ''en-IN'' \<and> voiceError voice_live = [] \<and>
   recording (rec_onerror ''network'' (MicGranted 7) voice_live) \<and>
   mediaRecorderRef (rec_onerror ''network'' (MicGranted 7) voice_live) = Some 7 \<and>
   voiceError (rec_onerror ''network'' (MicGranted 7) voice_live) =
     ''Browser voice service unavailable. Falling back to in-app recording.'' \<and>
   voiceError (rec_onerror ''network'' (MicGranted 7) voice_live) \<noteq> []"
  by (simp add: rec_onerror_def startBackendRecordingCapture_def voice_live_def)

text \<open>
  C8, amended. When the live recognition session reports the error \<open>network\<close>, the
  handler drops the live session handle and asks for the microphone. When the
  microphone is granted and the recorder starts, the state is raw recording (recording
  set, busy cleared, stream and recorder held, no buffered chunks) and the user-visible
  voice message is the fixed notice \<open>Browser voice service unavailable. Falling back
  to in-app recording.\<close> When the fallback fails, no recording is active and the
  message is \<open>Microphone access denied or unavailable.\<close>
\<close>

theorem rec_onerror_network:
  assumes "v' = rec_onerror ''network'' out v"
  shows "speechRef v' = None \<and>
         take (Suc (length (calls v))) (calls v') = calls v @ [GetUserMedia] \<and>
         (\<forall>stream. out = MicGranted stream \<longrightarrow>
            recording v' \<and> \<not> voiceBusy v' \<and>
            mediaStreamRef v' = Some stream \<and> mediaRecorderRef v' = Some stream \<and>
            audioChunks v' = [] \<and>
            voiceError v' =
              ''Browser voice service unavailable. Falling back to in-app recording.'') \<and>
         ((\<forall>stream. out \<noteq> MicGranted stream) \<longrightarrow>
            \<not> recording v' \<and> \<not> voiceBusy v' \<and>
            voiceError v' = ''Microphone access denied or unavailable.'')"
  using assms
  by (cases out) (simp_all add: rec_onerror_def startBackendRecordingCapture_def)

theorem rec_onerror_network_witness:
  "speechRef (rec_onerror ''network'' (MicGranted 7) voice_live) = None \<and>
   take 1 (calls (rec_onerror ''network'' (MicGranted 7) voice_live)) = [GetUserMedia] \<and>
   recording (rec_onerror ''network'' (MicGranted 7) voice_live) \<and>
   mediaStreamRef (rec_onerror ''network'' (MicGranted 7) voice_live) = Some 7 \<and>
   voiceError (rec_onerror ''network'' (MicGranted 7) voice_live) =
     ''Browser voice service unavailable. Falling back to in-app recording.'' \<and>
   \<not> recording (rec_onerror ''network'' MicDenied voice_live) \<and>
   voiceError (rec_onerror ''network'' MicDenied voice_live) =
     ''Microphone access denied or unavailable.''"
proof -
  have c: "calls voice_live = []"
    by (simp add: voice_live_def)
  have d: "\<forall>stream. MicDenied \<noteq> MicGranted stream"
    by simp
  show ?thesis
    using rec_onerror_network [OF refl, of "MicGranted 7" voice_live]
      rec_onerror_network [OF refl, of MicDenied voice_live] c d
    by simp
qed

end
